theory Spec2Isabelle
  imports Complex_Main
begin

text \<open>
  A model of \<open>packages/client-twitter/src/post.ts\<close>, the posting client of the agent:
  the text helpers (\<open>truncateToCompleteSentence\<close>, \<open>trimTweetLength\<close>, the cleaning of a
  generated post), the posting cycle (\<open>generateNewTweet\<close>, \<open>sendTweet\<close>), the schedule check
  (\<open>generateNewTweetLoop\<close>) and the action pipeline (\<open>processTweetActions\<close>,
  \<open>handleTextOnlyReply\<close>).

  Pure helpers are HOL functions on strings. The methods are state transformers over a
  record of the mutable state, with exceptions and early returns as values. The
  collaborators (runtime, memory store, cache, platform client, generation services) are
  not part of the file: each call to one is recorded in a trace, and an environment record
  says which calls throw and what the others return. The code is sequential between its
  \<open>await\<close>s and one invocation is modelled at a time.
\<close>

section \<open>JavaScript strings\<close>

text \<open>
  The client is TypeScript. A JavaScript string is a sequence of UTF-16 code units and
  \<open>length\<close>, \<open>slice\<close>, \<open>lastIndexOf\<close> and \<open>trim\<close> all count code units. The model uses
  \<open>string\<close> (a list of \<open>char\<close>), one \<open>char\<close> per code unit, for text in the Latin-1 range.

  \<open>is_ws\<close> is the set that \<open>String.prototype.trim\<close> strips and that \<open>\s\<close> matches in a
  regular expression (WhiteSpace and LineTerminator of ECMAScript), restricted to that range:
  TAB, LF, VT, FF, CR, SPACE and NBSP.
\<close>

definition is_ws :: "char \<Rightarrow> bool" where
  "is_ws c = (c \<in> set [CHR 0x09, CHR 0x0A, CHR 0x0B, CHR 0x0C, CHR 0x0D, CHR 0x20, CHR 0xA0])"

definition trim :: "string \<Rightarrow> string" where
  "trim s = rev (dropWhile is_ws (rev (dropWhile is_ws s)))"

text \<open>
  \<open>s.slice(b, e)\<close>: a negative index counts from the end, and both indices are clamped to
  \<open>0 .. s.length\<close>; an empty range gives the empty string.
\<close>

definition slice_index :: "nat \<Rightarrow> int \<Rightarrow> nat" where
  "slice_index len i = (if i < 0 then nat (max (int len + i) 0) else min (nat i) len)"

definition slice :: "string \<Rightarrow> int \<Rightarrow> int \<Rightarrow> string" where
  "slice s b e =
     (let from = slice_index (length s) b; to = slice_index (length s) e
      in take (to - from) (drop from s))"

text \<open>
  \<open>s.lastIndexOf(c, pos)\<close> for a one-character search string \<open>c\<close> (the file only searches
  for \<open>"."\<close> and \<open>" "\<close>): the greatest index \<open>k\<close> with \<open>k \<le> min (max pos 0) (s.length - 1)\<close>
  and \<open>s[k] = c\<close>, or \<open>-1\<close> when there is none. The search starts AT \<open>pos\<close>, so a match at
  index \<open>pos\<close> itself counts.
\<close>

definition lastIndexOf :: "string \<Rightarrow> char \<Rightarrow> int \<Rightarrow> int" where
  "lastIndexOf s c pos =
     (let start = min (max pos 0) (int (length s) - 1);
          hits = filter (\<lambda>k. s ! k = c) [0 ..< nat (start + 1)]
      in if hits = [] then - 1 else int (last hits))"

section \<open>truncateToCompleteSentence (post.ts, lines 68-96)\<close>

text \<open>
  \<open>maxTweetLength\<close> is the result of \<open>parseInt(...) || DEFAULT_MAX_TWEET_LENGTH\<close>, an integer
  (possibly negative), hence \<open>int\<close>.
\<close>

definition truncateToCompleteSentence :: "string \<Rightarrow> int \<Rightarrow> string" where
  "truncateToCompleteSentence txt maxTweetLength =
     (if int (length txt) \<le> maxTweetLength then txt
      else
        let truncatedAtPeriod = slice txt 0 (lastIndexOf txt (CHR ''.'') maxTweetLength + 1)
        in if length (trim truncatedAtPeriod) > 0 then trim truncatedAtPeriod
        else
          let truncatedAtSpace = slice txt 0 (lastIndexOf txt (CHR '' '') maxTweetLength)
          in if length (trim truncatedAtSpace) > 0 then trim truncatedAtSpace @ ''...''
          else trim (slice txt 0 (maxTweetLength - 3)) @ ''...'')"

section \<open>trimTweetLength (post.ts, lines 1000-1013)\<close>

text \<open>
  The length helper of \<open>generateTweetContent\<close>, on strings. \<open>lastIndexOf(".")\<close> without a
  position searches from the end.
\<close>

definition trimTweetLength :: "string \<Rightarrow> int \<Rightarrow> string" where
  "trimTweetLength txt maxLength =
     (if int (length txt) \<le> maxLength then txt
      else
        let head = slice txt 0 maxLength;
            lastSentence = lastIndexOf head (CHR ''.'') (int (length head))
        in if lastSentence > 0 then trim (slice txt 0 (lastSentence + 1))
           else trim (slice txt 0 (lastIndexOf txt (CHR '' '') (maxLength - 3))) @ ''...'')"

section \<open>Data of the Twitter post client\<close>

text \<open>
  A UUID is kept as its text. \<open>stringToUuid\<close> (from the core package) is a parameter of the
  environment below: nothing is assumed about it, in particular not that it is injective.
\<close>

type_synonym uuid = string

text \<open>The fields of a \<open>Tweet\<close> that the client reads.\<close>

record tweet =
  tw_id :: string
  tw_name :: string
  tw_username :: string
  tw_text :: string
  tw_conversationId :: string
  tw_userId :: string
  tw_permanentUrl :: string
  tw_timestamp :: int
  tw_photos :: "string list"
  tw_quotedStatusId :: "string option"

text \<open>The decision returned by \<open>generateTweetActions\<close>; \<open>null\<close> is \<open>None\<close> where it is used.\<close>

record actionResponse =
  like :: bool
  retweet :: bool
  quote :: bool
  reply :: bool

text \<open>The argument of \<open>messageManager.createMemory\<close> (the zero embedding is left out).\<close>

record memory =
  mem_id :: uuid
  mem_userId :: uuid
  mem_agentId :: uuid
  mem_roomId :: uuid
  mem_text :: string
  mem_url :: string
  mem_source :: string
  mem_action :: "string option"
  mem_createdAt :: int

text \<open>One entry of the \<open>results\<close> array of \<open>processTweetActions\<close>.\<close>

record processedTweet =
  r_tweetId :: string
  r_parsedActions :: actionResponse
  r_executedActions :: "string list"

text \<open>What the client stores in the cache manager.\<close>

record scheduleState =
  sch_timestamp :: int
  sch_scheduledAt :: int
  sch_intervalMinutes :: int
  sch_lastExecutionDuration :: "int option"

datatype cache_value =
    LastPost "string option" int
  | NextTweetTime scheduleState
  | GenerationContext string

datatype media = Media string string

text \<open>
  \<open>body.data.create_tweet.tweet_results.result\<close> of a send response, when present
  (\<open>created_at\<close> already as the millisecond timestamp the client derives from it).
\<close>

record tweetResult =
  rest_id :: string
  full_text :: string
  conversation_id_str :: string
  created_at :: int
  in_reply_to_status_id_str :: "string option"

datatype provider = HEURIST | Provider string

text \<open>The result of the image plugin's handler: \<open>{ success, data? }\<close>.\<close>

record imageGeneration =
  img_success :: bool
  img_data :: "string option"

text \<open>A value produced by \<open>JSON.parse\<close>.\<close>

datatype json =
    JNull
  | JBool bool
  | JNum rat
  | JStr string
  | JArr "json list"
  | JObj "(string \<times> json) list"

section \<open>Calls to the collaborators\<close>

text \<open>
  Every call the client makes to a collaborator (runtime, memory store, cache, platform
  client, generation services) is an \<open>event\<close>; the world record keeps the calls made so
  far, in order. \<open>LogError\<close> is a call of \<open>elizaLogger.error\<close> or \<open>console.error\<close> with the
  message literal of the source; informational logging is not modelled.
  \<open>SendTweet\<close> and \<open>SendQuoteTweet\<close> stand for the request together with the
  \<open>result.json()\<close> that follows it at every call site.
\<close>

datatype event =
    EnsureUserExists uuid string
  | EnsureRoomExists uuid
  | EnsureParticipantInRoom uuid uuid
  | FetchTimelineForActions nat
  | GetMemoryById uuid
  | CreateMemory memory
  | ComposeState uuid string string
  | GenerateTweetActions tweet
  | GenerateTweetContent string string
  | GenerateText
  | LikeTweet string
  | Retweet string
  | BuildConversationThread string
  | DescribeImage string
  | GetTweet string
  | SendQuoteTweet string string
  | SendTweet string "string option" "media option"
  | CacheGet string
  | CacheSet string cache_value
  | CacheTweet string
  | ImageHandler string
  | ImageToBuffer string
  | LogError string

datatype error = CallFailed event | TypeError

text \<open>
  The environment of one run: the configuration, and how each collaborator answers.
  \<open>fails ev\<close> says that the call \<open>ev\<close> throws; the other fields give the value a call
  returns when it does not throw. \<open>generateTweetContent\<close> is the result of the method of
  that name (lines 944-997) for the quote (action \<open>QUOTE\<close>) or the reply (empty action) to
  a tweet: the method wraps the text generation service, and its result is taken from the
  environment. \<open>date_now n\<close> and \<open>math_random n\<close> are the values of the \<open>n\<close>-th call of
  \<open>Date.now()\<close> and \<open>Math.random()\<close>; random numbers and JSON numbers are exact rationals.
\<close>

record env =
  agentId :: uuid
  stringToUuid :: "string \<Rightarrow> uuid"
  twitterUsername :: string
  profileUsername :: string
  profileScreenName :: string
  profileId :: string
  characterName :: string
  characterTopics :: string
  setting_IMAGE_GEN :: "string option"
  imageGenChancePercent :: rat
  setting_MAX_TWEET_LENGTH :: "int option"
  DEFAULT_MAX_TWEET_LENGTH :: int
  setting_TWITTER_DRY_RUN :: "string option"
  setting_POST_INTERVAL_MIN :: "int option"
  setting_POST_INTERVAL_MAX :: "int option"
  fails :: "event \<Rightarrow> bool"
  timeline :: "tweet list"
  decide :: "tweet \<Rightarrow> actionResponse option"
  generateTweetContent :: "tweet \<Rightarrow> string \<Rightarrow> string"
  sendQuoteTweetBody :: "string \<Rightarrow> string \<Rightarrow> tweetResult option"
  sendTweetBody :: "string \<Rightarrow> string option \<Rightarrow> media option \<Rightarrow> tweetResult option"
  generatedText :: string
  json_parse :: "string \<Rightarrow> json option"
  imageHandlerAvailable :: bool
  imageHandlerResult :: "string \<Rightarrow> imageGeneration option"
  imageToBuffer :: "string \<Rightarrow> string"
  date_now :: "nat \<Rightarrow> int"
  math_random :: "nat \<Rightarrow> rat"

text \<open>
  The mutable state: the fields of \<open>TwitterPostClient\<close> and of the runtime that the code
  assigns, the memory store (an association list, in creation order), the cache, the calls
  made so far, the numbers of \<open>Date.now()\<close> and \<open>Math.random()\<close> calls so far, and the array
  \<open>executedActions\<close> of the tweet being processed (a local of the loop body that
  \<open>handleTextOnlyReply\<close> mutates through its parameter).
\<close>

record world =
  isProcessing :: bool
  lastProcessTime :: int
  modelProvider :: provider
  memories :: "(uuid \<times> memory) list"
  cache :: "string \<rightharpoonup> cache_value"
  trace :: "event list"
  clock :: nat
  draws :: nat
  executedActions :: "string list"

section \<open>Statements, exceptions and early returns\<close>

text \<open>
  A piece of code is a function from the world to an outcome and the world it leaves.
  The outcome is a value (\<open>Inr\<close>), or an abrupt completion (\<open>Inl\<close>): a thrown error, or a
  \<open>return\<close> statement of the enclosing function with its value. A \<open>catch\<close> handles only
  what was thrown; a \<open>return\<close> inside a \<open>try\<close> leaves every enclosing block of the
  function, running each \<open>finally\<close> on the way.
\<close>

datatype 'r abrupt = Throw error | Return 'r

type_synonym ('r, 'a) prog = "world \<Rightarrow> ('r abrupt + 'a) \<times> world"

definition pure :: "'a \<Rightarrow> ('r, 'a) prog" where
  "pure x = (\<lambda>w. (Inr x, w))"

definition throw :: "error \<Rightarrow> ('r, 'a) prog" where
  "throw e = (\<lambda>w. (Inl (Throw e), w))"

definition return_stmt :: "'r \<Rightarrow> ('r, 'a) prog" where
  "return_stmt v = (\<lambda>w. (Inl (Return v), w))"

definition bind :: "('r, 'a) prog \<Rightarrow> ('a \<Rightarrow> ('r, 'b) prog) \<Rightarrow> ('r, 'b) prog" where
  "bind m f = (\<lambda>w. case m w of (Inl a, w') \<Rightarrow> (Inl a, w') | (Inr x, w') \<Rightarrow> f x w')"

definition then_do :: "('r, 'a) prog \<Rightarrow> ('r, 'b) prog \<Rightarrow> ('r, 'b) prog" where
  "then_do m n = bind m (\<lambda>_. n)"

definition try_catch :: "('r, 'a) prog \<Rightarrow> (error \<Rightarrow> ('r, 'a) prog) \<Rightarrow> ('r, 'a) prog" where
  "try_catch m h = (\<lambda>w. case m w of (Inl (Throw e), w') \<Rightarrow> h e w' | res \<Rightarrow> res)"

definition try_finally :: "('r, 'a) prog \<Rightarrow> (world \<Rightarrow> world) \<Rightarrow> ('r, 'a) prog" where
  "try_finally m fin = (\<lambda>w. case m w of (res, w') \<Rightarrow> (res, fin w'))"

text \<open>
  Calling a function whose body is \<open>m\<close>: a \<open>return v\<close> of the body, or reaching its end
  with \<open>v\<close>, gives the caller the value \<open>v\<close>; an error thrown by the body is thrown to the
  caller.
\<close>

definition call_fn :: "('r, 'r) prog \<Rightarrow> ('s, 'r) prog" where
  "call_fn m = (\<lambda>w. case m w of
       (Inl (Throw e), w') \<Rightarrow> (Inl (Throw e), w')
     | (Inl (Return v), w') \<Rightarrow> (Inr v, w')
     | (Inr v, w') \<Rightarrow> (Inr v, w'))"

definition gets :: "(world \<Rightarrow> 'a) \<Rightarrow> ('r, 'a) prog" where
  "gets f = (\<lambda>w. (Inr (f w), w))"

definition modify :: "(world \<Rightarrow> world) \<Rightarrow> ('r, unit) prog" where
  "modify f = (\<lambda>w. (Inr (), f w))"

text \<open>
  The effect of a call that does not throw: \<open>createMemory\<close> adds the record to the store
  and \<open>cacheManager.set\<close> writes the key; the other calls leave the modelled state alone.
\<close>

fun effect :: "event \<Rightarrow> world \<Rightarrow> world" where
  "effect (CreateMemory m) w = w\<lparr>memories := memories w @ [(mem_id m, m)]\<rparr>"
| "effect (CacheSet k v) w = w\<lparr>cache := (cache w)(k \<mapsto> v)\<rparr>"
| "effect _ w = w"

definition call :: "env \<Rightarrow> event \<Rightarrow> ('r, unit) prog" where
  "call e ev = (\<lambda>w.
     let w' = w\<lparr>trace := trace w @ [ev]\<rparr>
     in if fails e ev then (Inl (Throw (CallFailed ev)), w') else (Inr (), effect ev w'))"

definition log_error :: "string \<Rightarrow> ('r, unit) prog" where
  "log_error msg = modify (\<lambda>w. w\<lparr>trace := trace w @ [LogError msg]\<rparr>)"

definition dateNow :: "env \<Rightarrow> ('r, int) prog" where
  "dateNow e = (\<lambda>w. (Inr (date_now e (clock w)), w\<lparr>clock := Suc (clock w)\<rparr>))"

definition mathRandom :: "env \<Rightarrow> ('r, rat) prog" where
  "mathRandom e = (\<lambda>w. (Inr (math_random e (draws w)), w\<lparr>draws := Suc (draws w)\<rparr>))"

section \<open>processTweetActions (post.ts, lines 1015-1318) and handleTextOnlyReply (lines 1320-1428)\<close>

definition tweetMemoryId :: "env \<Rightarrow> tweet \<Rightarrow> uuid" where
  "tweetMemoryId e t = stringToUuid e (tw_id t @ ''-'' @ agentId e)"

definition tweetRoomId :: "env \<Rightarrow> tweet \<Rightarrow> uuid" where
  "tweetRoomId e t = stringToUuid e (tw_conversationId t @ ''-'' @ agentId e)"

text \<open>\<open>executedActions.push(label)\<close>.\<close>

definition push_executed :: "string \<Rightarrow> ('r, unit) prog" where
  "push_executed label = modify (\<lambda>w. w\<lparr>executedActions := executedActions w @ [label]\<rparr>)"

text \<open>\<open>executedActions.join(",")\<close>.\<close>

fun join_comma :: "string list \<Rightarrow> string" where
  "join_comma [] = []"
| "join_comma [x] = x"
| "join_comma (x # y # ys) = x @ '','' @ join_comma (y # ys)"

text \<open>
  The context enrichment that the quote block (lines 1120-1193) and \<open>handleTextOnlyReply\<close>
  (lines 1326-1385) both carry out, with the same statements: build the conversation
  thread, describe each photo, fetch the quoted tweet inside a \<open>try\<close> of its own, compose
  the state. Only the \<open>action\<close> of the composed message differs (\<open>"QUOTE"\<close> or \<open>""\<close>).
\<close>

fun describeImages :: "env \<Rightarrow> string list \<Rightarrow> ('r, unit) prog" where
  "describeImages e [] = pure ()"
| "describeImages e (url # urls) = then_do (call e (DescribeImage url)) (describeImages e urls)"

definition fetchQuotedTweet :: "env \<Rightarrow> tweet \<Rightarrow> ('r, unit) prog" where
  "fetchQuotedTweet e t =
     (case tw_quotedStatusId t of
        None \<Rightarrow> pure ()
      | Some q \<Rightarrow>
          if q = [] then pure ()
          else try_catch (call e (GetTweet q)) (\<lambda>err. log_error ''Error fetching quoted tweet:''))"

definition enrichState :: "env \<Rightarrow> tweet \<Rightarrow> string \<Rightarrow> ('r, unit) prog" where
  "enrichState e t action =
     then_do (call e (BuildConversationThread (tw_id t)))
    (then_do (describeImages e (tw_photos t))
    (then_do (fetchQuotedTweet e t)
             (call e (ComposeState (tweetRoomId e t) (tw_text t) action))))"

text \<open>Lines 1092-1103.\<close>

definition likeAction :: "env \<Rightarrow> tweet \<Rightarrow> ('r, unit) prog" where
  "likeAction e t =
     try_catch
       (then_do (call e (LikeTweet (tw_id t))) (push_executed ''like''))
       (\<lambda>err. log_error ''Error liking tweet'')"

text \<open>Lines 1105-1116.\<close>

definition retweetAction :: "env \<Rightarrow> tweet \<Rightarrow> ('r, unit) prog" where
  "retweetAction e t =
     try_catch
       (then_do (call e (Retweet (tw_id t))) (push_executed ''retweet''))
       (\<lambda>err. log_error ''Error retweeting tweet'')"

text \<open>
  Lines 1118-1251. The \<open>return;\<close> of line 1207 stands directly in the body of
  \<open>processTweetActions\<close>: it is a return of that function, with the value \<open>undefined\<close>.
\<close>

datatype processTweetActions_value =
    ReturnedNull
  | ReturnedUndefined
  | ReturnedResults "processedTweet list"

definition quoteAction :: "env \<Rightarrow> tweet \<Rightarrow> (processTweetActions_value, unit) prog" where
  "quoteAction e t =
     try_catch
       (then_do (enrichState e t ''QUOTE'')
       (then_do (call e (GenerateTweetContent (tw_id t) ''QUOTE''))
         (let quoteContent = generateTweetContent e t ''QUOTE''
          in if quoteContent = []
             then then_do (log_error ''Failed to generate valid quote tweet content'')
                          (return_stmt ReturnedUndefined)
             else then_do (call e (SendQuoteTweet quoteContent (tw_id t)))
                    (if sendQuoteTweetBody e quoteContent (tw_id t) \<noteq> None
                     then then_do (push_executed ''quote'')
                            (call e (CacheSet (''twitter/quote_generation_'' @ tw_id t @ ''.txt'')
                                       (GenerationContext quoteContent)))
                     else log_error ''Quote tweet creation failed:''))))
       (\<lambda>err. log_error ''Error in quote tweet generation:'')"

text \<open>\<open>handleTextOnlyReply\<close>: here \<open>return;\<close> (line 1397) leaves only this method.\<close>

definition handleTextOnlyReply :: "env \<Rightarrow> tweet \<Rightarrow> ('r, unit) prog" where
  "handleTextOnlyReply e t =
     call_fn
       (try_catch
          (then_do (enrichState e t '''')
          (then_do (call e (GenerateTweetContent (tw_id t) ''''))
            (let replyText = generateTweetContent e t ''''
             in if replyText = []
                then then_do (log_error ''Failed to generate valid reply content'')
                             (return_stmt ())
                else then_do (call e (SendTweet replyText (Some (tw_id t)) None))
                       (if sendTweetBody e replyText (Some (tw_id t)) None \<noteq> None
                        then then_do (push_executed ''reply'')
                               (call e (CacheSet (''twitter/reply_generation_'' @ tw_id t @ ''.txt'')
                                          (GenerationContext replyText)))
                        else log_error ''Tweet reply creation failed:''))))
          (\<lambda>err. log_error ''Error in handleTextOnlyReply:''))"

text \<open>Lines 1253-1266.\<close>

definition replyAction :: "env \<Rightarrow> tweet \<Rightarrow> ('r, unit) prog" where
  "replyAction e t =
     try_catch (handleTextOnlyReply e t) (\<lambda>err. log_error ''Error replying to tweet'')"

text \<open>Lines 1268-1301: the bookkeeping calls, the memory record and the result entry.\<close>

definition processedMemory :: "env \<Rightarrow> tweet \<Rightarrow> string list \<Rightarrow> memory" where
  "processedMemory e t executed =
     \<lparr> mem_id = tweetMemoryId e t,
       mem_userId = stringToUuid e (tw_userId t),
       mem_agentId = agentId e,
       mem_roomId = tweetRoomId e t,
       mem_text = tw_text t,
       mem_url = tw_permanentUrl t,
       mem_source = ''twitter'',
       mem_action = Some (join_comma executed),
       mem_createdAt = tw_timestamp t * 1000 \<rparr>"

definition recordProcessed ::
  "env \<Rightarrow> tweet \<Rightarrow> actionResponse \<Rightarrow> processedTweet list \<Rightarrow> ('r, processedTweet list) prog" where
  "recordProcessed e t actionResponse results =
     then_do (call e (EnsureRoomExists (tweetRoomId e t)))
    (then_do (call e (EnsureUserExists (stringToUuid e (tw_userId t)) (tw_username t)))
    (then_do (call e (EnsureParticipantInRoom (agentId e) (tweetRoomId e t)))
    (bind (gets executedActions) (\<lambda>executed.
     then_do (call e (CreateMemory (processedMemory e t executed)))
       (pure (results @ [\<lparr> r_tweetId = tw_id t,
                           r_parsedActions = actionResponse,
                           r_executedActions = executed \<rparr>]))))))"

text \<open>Lines 1089-1301: what happens to a tweet once a decision has been made for it.\<close>

definition executeActions ::
  "env \<Rightarrow> tweet \<Rightarrow> actionResponse \<Rightarrow> processedTweet list
     \<Rightarrow> (processTweetActions_value, processedTweet list) prog" where
  "executeActions e t actionResponse results =
     then_do (modify (\<lambda>w. w\<lparr>executedActions := []\<rparr>))
    (then_do (if like actionResponse then likeAction e t else pure ())
    (then_do (if retweet actionResponse then retweetAction e t else pure ())
    (then_do (if quote actionResponse then quoteAction e t else pure ())
    (then_do (if reply actionResponse then replyAction e t else pure ())
             (recordProcessed e t actionResponse results)))))"

text \<open>
  The body of the \<open>try\<close> inside the loop (lines 1039-1301), for one tweet. Its value is the
  \<open>results\<close> array afterwards; a \<open>continue\<close> leaves the array as it was.
\<close>

definition processTweet ::
  "env \<Rightarrow> tweet \<Rightarrow> processedTweet list \<Rightarrow> (processTweetActions_value, processedTweet list) prog" where
  "processTweet e t results =
     then_do (call e (GetMemoryById (tweetMemoryId e t)))
    (bind (gets (\<lambda>w. map_of (memories w) (tweetMemoryId e t))) (\<lambda>memory.
     if memory \<noteq> None then pure results
     else
       then_do (call e (ComposeState (tweetRoomId e t) [] []))
      (then_do (call e (GenerateTweetActions t))
        (case decide e t of
           None \<Rightarrow> pure results
         | Some actionResponse \<Rightarrow> executeActions e t actionResponse results))))"

text \<open>The \<open>for\<close> loop over the timeline (lines 1037-1309), each tweet in a \<open>try\<close> of its own.\<close>

fun processTimeline ::
  "env \<Rightarrow> tweet list \<Rightarrow> processedTweet list \<Rightarrow> (processTweetActions_value, processedTweet list) prog" where
  "processTimeline e [] results = pure results"
| "processTimeline e (t # ts) results =
     bind (try_catch (processTweet e t results)
             (\<lambda>err. then_do (log_error ''Error processing tweet'') (pure results)))
          (\<lambda>results'. processTimeline e ts results')"

text \<open>The \<open>try\<close> block of lines 1021-1311.\<close>

definition processTweetActions_try :: "env \<Rightarrow> (processTweetActions_value, unit) prog" where
  "processTweetActions_try e =
     then_do (modify (\<lambda>w. w\<lparr>isProcessing := True\<rparr>))
    (bind (dateNow e) (\<lambda>now.
     then_do (modify (\<lambda>w. w\<lparr>lastProcessTime := now\<rparr>))
    (then_do (call e (EnsureUserExists (agentId e) (twitterUsername e)))
    (then_do (call e (FetchTimelineForActions 15))
    (bind (processTimeline e (timeline e) []) (\<lambda>results.
     return_stmt (ReturnedResults results)))))))"

text \<open>
  The method. The guard (lines 1016-1019) stands before the \<open>try\<close>; the \<open>catch\<close> logs and
  rethrows; the \<open>finally\<close> (lines 1315-1317) runs on every exit of the \<open>try\<close> and of the
  \<open>catch\<close>, a \<open>return\<close> included. A method that reaches its end returns \<open>undefined\<close>.
\<close>

definition processTweetActions :: "env \<Rightarrow> ('r, processTweetActions_value) prog" where
  "processTweetActions e =
     call_fn (\<lambda>w.
       if isProcessing w then return_stmt ReturnedNull w
       else
         then_do
           (try_finally
              (try_catch (processTweetActions_try e)
                 (\<lambda>err. then_do (log_error ''Error in processTweetActions:'') (throw err)))
              (\<lambda>w. w\<lparr>isProcessing := False\<rparr>))
           (pure ReturnedUndefined) w)"

section \<open>Cleaning the generated post (post.ts, lines 658-704)\<close>

text \<open>
  JavaScript's \<open>ToBoolean\<close> on a parsed JSON value, and the property read \<open>v.text\<close>:
  reading a property of \<open>null\<close> throws a TypeError; a boolean, a number, a string and an
  array have no property \<open>text\<close> (\<open>undefined\<close>, here \<open>None\<close>); an object gives the property
  if it has one. \<open>JObj\<close> lists each property of the object once.
\<close>

fun truthy :: "json \<Rightarrow> bool" where
  "truthy JNull = False"
| "truthy (JBool b) = b"
| "truthy (JNum q) = (q \<noteq> 0)"
| "truthy (JStr s) = (s \<noteq> [])"
| "truthy (JArr xs) = True"
| "truthy (JObj kvs) = True"

fun get_text :: "json \<Rightarrow> error + json option" where
  "get_text JNull = Inl TypeError"
| "get_text (JObj kvs) = Inr (map_of kvs ''text'')"
| "get_text v = Inr None"

definition dquote :: char where "dquote = CHR 0x22"
definition squote :: char where "squote = CHR 0x27"
definition backslash :: char where "backslash = CHR 0x5C"
definition newline :: char where "newline = CHR 0x0A"

text \<open>
  \<open>.replace(/^\s*{?\s*"text":\s*"|"\s*}?\s*$/g, "")\<close>. The first alternative can match
  only at index 0: white space, an optional brace, white space, the seven characters
  \<open>"text":\<close>, white space and a double quote. The second matches a double quote followed,
  up to the end of the input, by white space, an optional closing brace and white space;
  the leftmost such quote is the match, and it reaches the end, so it is the last match.
\<close>

definition wrapper_prefix :: "string \<Rightarrow> string option" where
  "wrapper_prefix s =
     (let s1 = dropWhile is_ws s;
          s2 = (case s1 of [] \<Rightarrow> s1 | c # r \<Rightarrow> if c = CHR ''{'' then r else s1);
          s3 = dropWhile is_ws s2
      in if take 7 s3 = dquote # ''text'' @ [dquote, CHR '':'']
         then (case dropWhile is_ws (drop 7 s3) of
                 [] \<Rightarrow> None
               | c # r \<Rightarrow> if c = dquote then Some r else None)
         else None)"

definition wrapper_tail :: "string \<Rightarrow> bool" where
  "wrapper_tail s =
     (let s1 = dropWhile is_ws s;
          s2 = (case s1 of [] \<Rightarrow> s1 | c # r \<Rightarrow> if c = CHR ''}'' then r else s1)
      in dropWhile is_ws s2 = [])"

fun strip_wrapper_tail :: "string \<Rightarrow> string" where
  "strip_wrapper_tail [] = []"
| "strip_wrapper_tail (c # cs) =
     (if c = dquote \<and> wrapper_tail cs then [] else c # strip_wrapper_tail cs)"

definition remove_json_wrapper :: "string \<Rightarrow> string" where
  "remove_json_wrapper s =
     (case wrapper_prefix s of
        Some rest \<Rightarrow> strip_wrapper_tail rest
      | None \<Rightarrow> strip_wrapper_tail s)"

text \<open>
  \<open>.replace(/^['"](.*)['"]$/g, "$1")\<close> and \<open>removeQuotes\<close> (the same pattern): a string that
  starts and ends with a quote character, at least two characters long and with no line
  terminator between them (\<open>.\<close> does not match one), loses the two quotes.
\<close>

definition is_quote :: "char \<Rightarrow> bool" where
  "is_quote c = (c = squote \<or> c = dquote)"

definition is_line_terminator :: "char \<Rightarrow> bool" where
  "is_line_terminator c = (c = CHR 0x0A \<or> c = CHR 0x0D)"

definition removeQuotes :: "string \<Rightarrow> string" where
  "removeQuotes s =
     (case s of
        [] \<Rightarrow> s
      | c # rest \<Rightarrow>
          if rest \<noteq> [] \<and> is_quote c \<and> is_quote (last rest)
             \<and> filter is_line_terminator (butlast rest) = []
          then butlast rest else s)"

text \<open>\<open>.replace(/\\"/g, '"')\<close>: every backslash followed by a double quote becomes the quote.\<close>

fun unescape_quotes :: "string \<Rightarrow> string" where
  "unescape_quotes (c # d # rest) =
     (if c = backslash \<and> d = dquote then dquote # unescape_quotes rest
      else c # unescape_quotes (d # rest))"
| "unescape_quotes s = s"

text \<open>
  \<open>.replace(/\\n/g, "\n")\<close> and \<open>fixNewLines\<close>: every backslash followed by the letter n
  becomes a line feed.
\<close>

fun fixNewLines :: "string \<Rightarrow> string" where
  "fixNewLines (c # d # rest) =
     (if c = backslash \<and> d = CHR ''n'' then newline # fixNewLines rest
      else c # fixNewLines (d # rest))"
| "fixNewLines s = s"

text \<open>The \<open>catch\<close> branch of lines 669-678: the response was not JSON.\<close>

definition clean_raw :: "string \<Rightarrow> string" where
  "clean_raw newTweetContent =
     trim (fixNewLines (unescape_quotes (removeQuotes (remove_json_wrapper newTweetContent))))"

text \<open>
  Lines 658-678. \<open>cleanedContent\<close> starts as \<open>""\<close>; \<open>JSON.parse\<close> throwing (\<open>None\<close>) and the
  TypeError of \<open>parsedResponse.text\<close> on \<open>null\<close> both lead to the \<open>catch\<close> branch. The result
  is a JavaScript value: \<open>parsedResponse.text\<close> is assigned whatever its type.
\<close>

definition cleanContent :: "env \<Rightarrow> string \<Rightarrow> json" where
  "cleanContent e newTweetContent =
     (case json_parse e newTweetContent of
        None \<Rightarrow> JStr (clean_raw newTweetContent)
      | Some parsedResponse \<Rightarrow>
          (let otherwise = (case parsedResponse of JStr s \<Rightarrow> JStr s | _ \<Rightarrow> JStr [])
           in case get_text parsedResponse of
                Inl err \<Rightarrow> JStr (clean_raw newTweetContent)
              | Inr None \<Rightarrow> otherwise
              | Inr (Some v) \<Rightarrow> if truthy v then v else otherwise))"

section \<open>sendTweet (post.ts, lines 517-592)\<close>

definition postMemory :: "env \<Rightarrow> tweetResult \<Rightarrow> string \<Rightarrow> uuid \<Rightarrow> memory" where
  "postMemory e tweetResult newTweetContent roomId =
     \<lparr> mem_id = stringToUuid e (rest_id tweetResult @ ''-'' @ agentId e),
       mem_userId = agentId e,
       mem_agentId = agentId e,
       mem_roomId = roomId,
       mem_text = trim newTweetContent,
       mem_url = ''https://twitter.com/'' @ twitterUsername e @ ''/status/'' @ rest_id tweetResult,
       mem_source = ''twitter'',
       mem_action = None,
       mem_createdAt = created_at tweetResult \<rparr>"

definition sendTweet :: "env \<Rightarrow> string \<Rightarrow> string \<Rightarrow> uuid \<Rightarrow> string option \<Rightarrow> ('r, unit) prog" where
  "sendTweet e cleanedContent newTweetContent roomId imageBuffer =
     call_fn
       (let media = (case imageBuffer of
                       None \<Rightarrow> None
                     | Some b \<Rightarrow> Some (Media b ''image/jpeg''))
        in then_do (call e (SendTweet cleanedContent None media))
             (case sendTweetBody e cleanedContent None media of
                None \<Rightarrow>
                  then_do (log_error ''Error sending tweet; Bad response:'') (return_stmt ())
              | Some tweetResult \<Rightarrow>
                  bind (dateNow e) (\<lambda>now.
                  then_do (call e (CacheSet (''twitter/'' @ profileUsername e @ ''/lastPost'')
                                     (LastPost (Some (rest_id tweetResult)) now)))
                 (then_do (call e (CacheTweet (rest_id tweetResult)))
                 (then_do (call e (EnsureRoomExists roomId))
                 (then_do (call e (EnsureParticipantInRoom (agentId e) roomId))
                          (call e (CreateMemory
                                     (postMemory e tweetResult newTweetContent roomId)))))))))"

section \<open>generateNewTweet (post.ts, lines 594-898)\<close>

text \<open>\<open>toLowerCase\<close> on the letters A to Z, which is all that the comparison with \<open>"true"\<close> needs.\<close>

definition toLowerCase :: "string \<Rightarrow> string" where
  "toLowerCase s =
     map (\<lambda>c. let n = (of_char c :: nat)
              in if 65 \<le> n \<and> n \<le> 90 then char_of (n + 32) else c) s"

text \<open>\<open>parseInt(setting) || d\<close>: \<open>NaN\<close> (here \<open>None\<close>) and 0 give the default.\<close>

definition or_default :: "int option \<Rightarrow> int \<Rightarrow> int" where
  "or_default parsed d = (case parsed of None \<Rightarrow> d | Some n \<Rightarrow> if n = 0 then d else n)"

text \<open>
  Lines 721-882, the \<open>if (generateImage && shouldGenerateImage)\<close> statement.
  When the plugin or its handler is missing, line 734 is a \<open>return\<close> of \<open>generateNewTweet\<close>.
  The tweet with the image goes out through \<open>twitterClient.sendTweet\<close> directly, with
  \<open>content\<close>; the text-only tweets go through the method \<open>sendTweet\<close> with \<open>cleanedContent\<close>.
\<close>

definition imagePromptOf :: "env \<Rightarrow> string \<Rightarrow> string" where
  "imagePromptOf e cleanedContent =
     ''Generate an image that represents this tweet: '' @ cleanedContent @ '' and ''
       @ characterName e @ '' as main character in the image''"

text \<open>\<open>result?.success && result.data\<close>: the data when the condition holds.\<close>

definition usableImage :: "imageGeneration option \<Rightarrow> string option" where
  "usableImage result =
     (case result of
        None \<Rightarrow> None
      | Some r \<Rightarrow>
          if img_success r
          then (case img_data r of None \<Rightarrow> None | Some d \<Rightarrow> if d = [] then None else Some d)
          else None)"

definition generateWithImage ::
  "env \<Rightarrow> string \<Rightarrow> string \<Rightarrow> string \<Rightarrow> uuid \<Rightarrow> (unit, unit) prog" where
  "generateWithImage e content cleanedContent newTweetContent roomId =
     (let imagePrompt = imagePromptOf e cleanedContent
      in try_catch
           (if \<not> imageHandlerAvailable e
            then then_do (log_error ''Image generation plugin not found or handler not available'')
                         (return_stmt ())
            else
              bind (gets modelProvider) (\<lambda>originalProvider.
              then_do (modify (\<lambda>w. w\<lparr>modelProvider := HEURIST\<rparr>))
                (try_catch
                   (then_do (call e (ComposeState (stringToUuid e ''twitter_image_generation'')
                                       imagePrompt ''GENERATE_IMAGE''))
                   (then_do (call e (ImageHandler imagePrompt))
                   (then_do (modify (\<lambda>w. w\<lparr>modelProvider := originalProvider\<rparr>))
                     (case usableImage (imageHandlerResult e imagePrompt) of
                        Some d \<Rightarrow>
                          then_do (call e (ImageToBuffer d))
                                  (call e (SendTweet content None
                                             (Some (Media (imageToBuffer e d) ''image/png''))))
                      | None \<Rightarrow> sendTweet e cleanedContent newTweetContent roomId None))))
                   (\<lambda>err. then_do (modify (\<lambda>w. w\<lparr>modelProvider := originalProvider\<rparr>))
                          (then_do (log_error ''Error details:'') (throw err))))))
           (\<lambda>err. then_do (log_error ''Error generating image:'')
                    (sendTweet e cleanedContent newTweetContent roomId None)))"

text \<open>Lines 716-894: the inner \<open>try\<close> that publishes and then writes \<open>lastPost\<close>.\<close>

definition publishTweet ::
  "env \<Rightarrow> bool \<Rightarrow> string \<Rightarrow> string \<Rightarrow> string \<Rightarrow> uuid \<Rightarrow> (unit, unit) prog" where
  "publishTweet e withImage content cleanedContent newTweetContent roomId =
     try_catch
       (then_do
          (if withImage
           then generateWithImage e content cleanedContent newTweetContent roomId
           else sendTweet e cleanedContent newTweetContent roomId None)
          (bind (dateNow e) (\<lambda>now.
             call e (CacheSet (''twitter/'' @ twitterUsername e @ ''/lastPost'') (LastPost None now)))))
       (\<lambda>err. log_error ''Error sending tweet:'')"

text \<open>
  Lines 613-897, the outer \<open>try\<close>. A \<open>cleanedContent\<close> that is truthy but not a string
  (a number, \<open>true\<close>, an array or an object under \<open>text\<close>) makes
  \<open>truncateToCompleteSentence\<close> or \<open>fixNewLines\<close> call a string method that the value does
  not have: a TypeError, thrown before anything is published.
\<close>

definition generateNewTweet_try :: "env \<Rightarrow> bool \<Rightarrow> bool \<Rightarrow> (unit, unit) prog" where
  "generateNewTweet_try e generateImage shouldGenerateImage =
     (let roomId = stringToUuid e (''twitter_generate_room-'' @ profileUsername e)
      in then_do (call e (EnsureUserExists (agentId e) (profileUsername e)))
        (then_do (call e (ComposeState roomId (characterTopics e) ''TWEET''))
        (then_do (call e GenerateText)
          (let newTweetContent = generatedText e;
               cleaned = cleanContent e newTweetContent
           in if \<not> truthy cleaned
              then then_do (log_error ''Failed to extract valid content from response:'')
                           (return_stmt ())
              else
                (case cleaned of
                   JStr cleanedContent0 \<Rightarrow>
                     (let content = truncateToCompleteSentence cleanedContent0
                                      (or_default (setting_MAX_TWEET_LENGTH e)
                                         (DEFAULT_MAX_TWEET_LENGTH e));
                          cleanedContent = removeQuotes (fixNewLines content)
                      in if setting_TWITTER_DRY_RUN e = Some ''true''
                         then return_stmt ()
                         else publishTweet e (generateImage \<and> shouldGenerateImage)
                                content cleanedContent newTweetContent roomId)
                 | _ \<Rightarrow> throw TypeError)))))"

text \<open>
  The whole method. Line 598 stands before the \<open>try\<close>: with the setting \<open>IMAGE_GEN\<close>
  missing, \<open>.toLowerCase()\<close> throws to the caller.
\<close>

definition generateNewTweet :: "env \<Rightarrow> ('r, unit) prog" where
  "generateNewTweet e =
     call_fn
       (case setting_IMAGE_GEN e of
          None \<Rightarrow> throw TypeError
        | Some s \<Rightarrow>
            (let generateImage = (toLowerCase s = ''true'')
             in bind (mathRandom e) (\<lambda>r.
                  let shouldGenerateImage = (r < max 0 (min 100 (imageGenChancePercent e)) / 100)
                  in try_catch (generateNewTweet_try e generateImage shouldGenerateImage)
                       (\<lambda>err. log_error ''Error generating new tweet:''))))"

section \<open>generateNewTweetLoop (post.ts, lines 206-296)\<close>






section \<open>Concrete environments and worlds\<close>

text \<open>
  An environment in which no call throws, image generation is switched off, the model
  answers \<open>hello\<close> (not JSON) and no send response carries a result; and a world in which
  nothing has happened yet. The scenarios below change single fields of them.
\<close>

definition quiet_env :: env where
  "quiet_env =
     \<lparr> agentId = ''agent'', stringToUuid = (\<lambda>s. s), twitterUsername = ''bot'',
       profileUsername = ''bot'', profileScreenName = ''Bot'', profileId = ''42'',
       characterName = ''Bot'', characterTopics = ''tea'',
       setting_IMAGE_GEN = Some ''false'', imageGenChancePercent = 100,
       setting_MAX_TWEET_LENGTH = None, DEFAULT_MAX_TWEET_LENGTH = 280,
       setting_TWITTER_DRY_RUN = None, setting_POST_INTERVAL_MIN = None,
       setting_POST_INTERVAL_MAX = None, fails = (\<lambda>ev. False), timeline = [],
       decide = (\<lambda>t. None), generateTweetContent = (\<lambda>t action. ''nice''),
       sendQuoteTweetBody = (\<lambda>c i. None), sendTweetBody = (\<lambda>c r m. None),
       generatedText = ''hello'', json_parse = (\<lambda>s. None), imageHandlerAvailable = False,
       imageHandlerResult = (\<lambda>p. None), imageToBuffer = (\<lambda>d. d),
       date_now = (\<lambda>n. 1700000000000 + int n), math_random = (\<lambda>n. 0) \<rparr>"

definition idle_world :: world where
  "idle_world =
     \<lparr> isProcessing = False, lastProcessTime = 0, modelProvider = Provider ''openai'',
       memories = [], cache = Map.empty, trace = [], clock = 0, draws = 0,
       executedActions = [] \<rparr>"

definition sample_tweet :: "string \<Rightarrow> tweet" where
  "sample_tweet i =
     \<lparr> tw_id = i, tw_name = ''Ann'', tw_username = ''ann'', tw_text = ''gm'',
       tw_conversationId = i, tw_userId = ''7'',
       tw_permanentUrl = ''https://twitter.com/ann/status/'' @ i,
       tw_timestamp = 1700000000, tw_photos = [], tw_quotedStatusId = None \<rparr>"

definition like_only :: actionResponse where
  "like_only = \<lparr>like = True, retweet = False, quote = False, reply = False\<rparr>"

definition like_and_retweet :: actionResponse where
  "like_and_retweet = \<lparr>like = True, retweet = True, quote = False, reply = False\<rparr>"

definition quote_and_reply :: actionResponse where
  "quote_and_reply = \<lparr>like = False, retweet = False, quote = True, reply = True\<rparr>"

text \<open>
  The end-to-end scenario of the specification: three tweets fetched; the first is already
  in the memory store, the decision for the second is \<open>null\<close>, the third is liked.
\<close>

definition scenario_env :: env where
  "scenario_env = quiet_env
     \<lparr> timeline := [sample_tweet ''1'', sample_tweet ''2'', sample_tweet ''3''],
       decide := (\<lambda>t. if tw_id t = ''3'' then Some like_only else None) \<rparr>"

definition scenario_world :: world where
  "scenario_world = idle_world
     \<lparr> memories := [(''1-agent'', processedMemory quiet_env (sample_tweet ''1'') [])] \<rparr>"

text \<open>
  Two tweets fetched; quote and reply are decided for the first and the generated quote
  is empty; the second would be liked.
\<close>

definition empty_quote_env :: env where
  "empty_quote_env = quiet_env
     \<lparr> timeline := [sample_tweet ''1'', sample_tweet ''2''],
       decide := (\<lambda>t. if tw_id t = ''1'' then Some quote_and_reply else Some like_only),
       generateTweetContent := (\<lambda>t action. if action = ''QUOTE'' then [] else ''nice'') \<rparr>"

text \<open>One tweet, like and retweet decided, and the like call throws.\<close>

definition like_fails_env :: env where
  "like_fails_env = quiet_env
     \<lparr> timeline := [sample_tweet ''1''],
       decide := (\<lambda>t. Some like_and_retweet),
       fails := (\<lambda>ev. ev = LikeTweet ''1'') \<rparr>"

text \<open>One tweet, only a like decided, and the like call throws: no action is executed.\<close>

definition sole_like_fails_env :: env where
  "sole_like_fails_env = quiet_env
     \<lparr> timeline := [sample_tweet ''1''],
       decide := (\<lambda>t. Some like_only),
       fails := (\<lambda>ev. ev = LikeTweet ''1'') \<rparr>"


text \<open>The timeline cannot be fetched.\<close>

definition fetch_fails_env :: env where
  "fetch_fails_env = quiet_env \<lparr> fails := (\<lambda>ev. ev = FetchTimelineForActions 15) \<rparr>"

definition busy_world :: world where
  "busy_world = idle_world \<lparr> isProcessing := True \<rparr>"





section \<open>Predicates used in the proofs\<close>

text \<open>
  \<open>grows w w'\<close>: from \<open>w\<close> to \<open>w'\<close> the memory store and the trace were only appended to.
  \<open>behaves may_throw rets m\<close>: the code \<open>m\<close> only appends to them, throws only if \<open>may_throw\<close>,
  and its \<open>return\<close> statements only return values in \<open>rets\<close>.
\<close>

definition grows :: "world \<Rightarrow> world \<Rightarrow> bool" where
  "grows w w' = ((\<exists>ms. memories w' = memories w @ ms) \<and> (\<exists>es. trace w' = trace w @ es))"

definition behaves :: "bool \<Rightarrow> 'r set \<Rightarrow> ('r, 'a) prog \<Rightarrow> bool" where
  "behaves may_throw rets m =
     (\<forall>w. grows w (snd (m w)) \<and>
          (case fst (m w) of
             Inl (Throw err) \<Rightarrow> may_throw
           | Inl (Return v) \<Rightarrow> v \<in> rets
           | Inr x \<Rightarrow> True))"



text \<open>An outcome in which the tweet has its record, unless the function returned early.\<close>

definition recorded :: "env \<Rightarrow> tweet \<Rightarrow> ('r abrupt + 'a) \<times> world \<Rightarrow> bool" where
  "recorded e t out =
     (case fst out of
        Inl (Throw err) \<Rightarrow> False
      | Inl (Return v) \<Rightarrow> True
      | Inr x \<Rightarrow> map_of (memories (snd out)) (tweetMemoryId e t) \<noteq> None)"

section \<open>Results on truncateToCompleteSentence\<close>

text \<open>
  What does hold: a text within the limit is returned unchanged; and a longer text with a
  period at or before index \<open>maxTweetLength\<close> is cut through the last such period, so the
  result ends with it, and has at most \<open>maxTweetLength + 1\<close> characters.
\<close>

lemma truncateToCompleteSentence_short:
  "int (length txt) \<le> maxTweetLength \<Longrightarrow> truncateToCompleteSentence txt maxTweetLength = txt"
  by (simp add: truncateToCompleteSentence_def)

lemma lastIndexOf_cases:
  "lastIndexOf s c pos = - 1
   \<or> (0 \<le> lastIndexOf s c pos \<and> lastIndexOf s c pos \<le> max pos 0
      \<and> nat (lastIndexOf s c pos) < length s \<and> s ! nat (lastIndexOf s c pos) = c)"
proof -
  let ?start = "min (max pos 0) (int (length s) - 1)"
  let ?hits = "filter (\<lambda>k. s ! k = c) [0 ..< nat (?start + 1)]"
  show ?thesis
  proof (cases "?hits = []")
    case True
    then show ?thesis by (simp add: lastIndexOf_def Let_def)
  next
    case False
    define j where "j = last ?hits"
    from False have "j \<in> set ?hits" unfolding j_def by (rule last_in_set)
    then have "s ! j = c" and "j < nat (?start + 1)" by auto
    then have "s ! j = c" and "int j \<le> max pos 0" and "j < length s" by auto
    moreover from False have "lastIndexOf s c pos = int j"
      by (simp add: lastIndexOf_def Let_def j_def)
    ultimately show ?thesis by simp
  qed
qed

lemma length_trim_le: "length (trim s) \<le> length s"
proof -
  have "length (dropWhile is_ws (rev (dropWhile is_ws s))) \<le> length (rev (dropWhile is_ws s))"
    by (rule length_dropWhile_le)
  also have "\<dots> \<le> length s" by (simp add: length_dropWhile_le)
  finally show ?thesis by (simp add: trim_def)
qed

lemma last_trim:
  assumes "s \<noteq> []" and "\<not> is_ws (last s)" 
  shows "trim s \<noteq> [] \<and> last (trim s) = last s"
proof -
  let ?d = "dropWhile is_ws s"
  from assms have "last s \<in> set s" "\<not> is_ws (last s)" by auto
  then have ne: "?d \<noteq> []" by (auto simp: dropWhile_eq_Nil_conv)
  have "last ?d = last s" using ne assms(1)
    by (metis append_Nil2 dropWhile_eq_Nil_conv last_appendR takeWhile_dropWhile_id)
  with assms(2) ne have "\<not> is_ws (hd (rev ?d))" by (simp add: hd_rev)
  with ne have "dropWhile is_ws (rev ?d) = rev ?d"
    by (cases "rev ?d") auto
  then have "trim s = ?d" by (simp add: trim_def)
  with ne \<open>last ?d = last s\<close> show ?thesis by simp
qed

lemma truncateToCompleteSentence_at_period:
  assumes "int (length txt) > maxTweetLength" and "0 \<le> maxTweetLength"
    and "0 \<le> lastIndexOf txt (CHR ''.'') maxTweetLength"
  shows "truncateToCompleteSentence txt maxTweetLength
           = trim (take (Suc (nat (lastIndexOf txt (CHR ''.'') maxTweetLength))) txt)
         \<and> last (truncateToCompleteSentence txt maxTweetLength) = CHR ''.''
         \<and> int (length (truncateToCompleteSentence txt maxTweetLength)) \<le> maxTweetLength + 1"
proof -
  let ?k = "lastIndexOf txt (CHR ''.'') maxTweetLength"
  from lastIndexOf_cases [of "txt" "CHR ''.''" maxTweetLength] assms(2,3)
  have k: "?k \<le> maxTweetLength" "nat ?k < length txt" "txt ! nat ?k = CHR ''.''"
    by auto
  let ?p = "take (Suc (nat ?k)) txt"
  have sl: "slice txt 0 (?k + 1) = ?p"
    using assms(3) k(2) by (simp add: slice_def slice_index_def Let_def nat_add_distrib min_def)
  have pne: "?p \<noteq> []" using k(2) by auto
  have lastp: "last ?p = CHR ''.''"
    using k(2,3) by (simp add: take_Suc_conv_app_nth)
  have "\<not> is_ws (last ?p)" unfolding lastp by (simp add: is_ws_def)
  from last_trim [OF pne this] have t: "trim ?p \<noteq> []" "last (trim ?p) = CHR ''.''"
    by (simp_all add: lastp)
  have res: "truncateToCompleteSentence txt maxTweetLength = trim ?p"
    using assms(1) t(1) by (simp add: truncateToCompleteSentence_def sl Let_def)
  have "length (trim ?p) \<le> length ?p" by (rule length_trim_le)
  also have "\<dots> = Suc (nat ?k)" using k(2) by simp
  finally have "int (length (trim ?p)) \<le> maxTweetLength + 1" using k(1) assms(3) by linarith
  with res t(2) show ?thesis by simp
qed

text \<open>
  The sibling helper \<open>trimTweetLength\<close> cuts at a period found inside the first
  \<open>maxLength\<close> characters, and its result fits the limit.
\<close>

lemma trimTweetLength_at_period:
  assumes "int (length txt) > maxLength" and "0 \<le> maxLength"
    and "0 < lastIndexOf (slice txt 0 maxLength) (CHR ''.'') (int (length (slice txt 0 maxLength)))"
  shows "int (length (trimTweetLength txt maxLength)) \<le> maxLength"
proof -
  define head where "head = slice txt 0 maxLength"
  define k where "k = lastIndexOf head (CHR ''.'') (int (length head))"
  from assms(1,2) have "nat maxLength \<le> length txt" by linarith
  then have len_head: "int (length head) = maxLength"
    using assms(2) by (simp add: head_def slice_def slice_index_def Let_def min_def)
  have pos: "0 < k" using assms(3) by (simp add: k_def head_def)
  have "k = - 1 \<or> (0 \<le> k \<and> k \<le> max (int (length head)) 0 \<and> nat k < length head
          \<and> head ! nat k = CHR ''.'')"
    unfolding k_def by (rule lastIndexOf_cases)
  with pos have "nat k < length head" by linarith
  with len_head pos have k: "k + 1 \<le> maxLength" by linarith
  have "length (slice txt 0 (k + 1)) \<le> nat (k + 1)"
    using pos by (simp add: slice_def slice_index_def Let_def)
  moreover have "length (trim (slice txt 0 (k + 1))) \<le> length (slice txt 0 (k + 1))"
    by (rule length_trim_le)
  ultimately have "int (length (trim (slice txt 0 (k + 1)))) \<le> maxLength"
    using k pos by linarith
  moreover have "trimTweetLength txt maxLength = trim (slice txt 0 (k + 1))"
    using assms(1) pos by (simp add: trimTweetLength_def Let_def k_def head_def)
  ultimately show ?thesis by simp
qed

text \<open>
  C6. The claim: a text longer than \<open>maxLength\<close> with a \<open>"."\<close> before \<open>maxLength\<close> is cut
  exactly at the last such terminator and the result has length \<open>\<le> maxLength\<close>; a text of
  length \<open>\<le> maxLength\<close> is returned unchanged.
  The code searches with \<open>text.lastIndexOf(".", maxTweetLength)\<close>, which also accepts a
  period AT index \<open>maxTweetLength\<close>, and slices through it: for \<open>"a.b.cd"\<close> and limit 3 the
  periods are at indices 1 and 3, the one before the limit is at index 1, and the function
  returns \<open>"a.b."\<close>, four characters, one more than the limit the function's own comment
  promises to fit. (\<open>trimTweetLength\<close>, lines 1000-1013, searches \<open>text.slice(0, maxLength)\<close>
  instead and stays within its limit.)
\<close>

theorem truncateToCompleteSentence_exceeds_limit:
  "truncateToCompleteSentence ''a.b.cd'' 3 = ''a.b.''
   \<and> length (truncateToCompleteSentence ''a.b.cd'' 3) = 4
   \<and> lastIndexOf ''a.b.cd'' (CHR ''.'') (3 - 1) = 1"
  by (simp add: truncateToCompleteSentence_def slice_def slice_index_def lastIndexOf_def
      trim_def is_ws_def upt_conv_Cons)

section \<open>Unfolding the model\<close>

lemmas prog_defs = pure_def throw_def return_stmt_def bind_def then_do_def try_catch_def
  try_finally_def call_fn_def gets_def modify_def call_def log_error_def dateNow_def
  mathRandom_def push_executed_def

lemmas pipeline_defs = processTweetActions_def processTweetActions_try_def processTweet_def
  executeActions_def likeAction_def retweetAction_def quoteAction_def replyAction_def handleTextOnlyReply_def
  recordProcessed_def processedMemory_def enrichState_def fetchQuotedTweet_def
  tweetMemoryId_def tweetRoomId_def

lemmas sample_defs = quiet_env_def idle_world_def sample_tweet_def like_only_def
  like_and_retweet_def quote_and_reply_def

lemma mem_id_processedMemory [simp]:
  "mem_id (processedMemory e t executed) = tweetMemoryId e t"
  by (simp add: processedMemory_def)

section \<open>Results on processTweetActions\<close>

subsection \<open>The entry guard\<close>

text \<open>
  C7. When \<open>processTweetActions\<close> is invoked while \<open>isProcessing\<close> is set, it returns
  \<open>null\<close> and leaves the world exactly as it was: no call to the memory store, the
  platform client or the cache is added to the trace, and neither the store nor the cache
  changes. The trigger is dropped.
\<close>

theorem guard_set_is_noop:
  "isProcessing w \<Longrightarrow> processTweetActions e w = (Inr ReturnedNull, w)"
  by (simp add: processTweetActions_def call_fn_def return_stmt_def)

theorem guard_set_is_noop_witness:
  "isProcessing busy_world
   \<and> processTweetActions scenario_env busy_world = (Inr ReturnedNull, busy_world)
   \<and> trace busy_world = [] \<and> memories busy_world = []"
  using guard_set_is_noop [of busy_world scenario_env]
  by (simp add: busy_world_def idle_world_def)

text \<open>
  C10. An invocation of \<open>processTweetActions\<close> that passes the entry guard leaves
  \<open>isProcessing\<close> false when it finishes, whatever its outcome: a results array, the
  \<open>undefined\<close> of an early return, or an exception thrown to the caller. The witness is a
  run in which fetching the timeline throws.
\<close>

theorem guard_cleared_at_exit:
  "\<not> isProcessing w \<Longrightarrow> \<not> isProcessing (snd (processTweetActions e w))"
  by (simp add: processTweetActions_def call_fn_def try_finally_def then_do_def bind_def
      pure_def split: prod.splits sum.splits abrupt.splits)

theorem guard_cleared_at_exit_witness:
  "\<not> isProcessing idle_world
   \<and> fst (processTweetActions fetch_fails_env idle_world :: (unit abrupt + _) \<times> _)
       = Inl (Throw (CallFailed (FetchTimelineForActions 15)))
   \<and> \<not> isProcessing (snd (processTweetActions fetch_fails_env idle_world :: (unit abrupt + _) \<times> _))"
  using guard_cleared_at_exit [of idle_world fetch_fails_env]
  by (simp add: pipeline_defs prog_defs fetch_fails_env_def sample_defs)

subsection \<open>Isolated failure of one action\<close>

text \<open>
  C4. For a tweet that reaches the decision \<open>{like: true, retweet: true, quote: false,
  reply: false}\<close> and whose like call throws, the retweet call is still made; if the
  retweet does not throw, \<open>executedActions\<close> is exactly \<open>["retweet"]\<close>, and when the
  bookkeeping calls and \<open>createMemory\<close> succeed that list is what the memory record
  (action \<open>retweet\<close>) and the result entry carry.
\<close>

theorem like_failure_does_not_stop_retweet:
  assumes "decide e t = Some \<lparr>like = True, retweet = True, quote = False, reply = False\<rparr>"
    and "fails e (LikeTweet (tw_id t))"
    and "\<not> fails e (GetMemoryById (tweetMemoryId e t))"
    and "map_of (memories w) (tweetMemoryId e t) = None"
    and "\<not> fails e (ComposeState (tweetRoomId e t) [] [])"
    and "\<not> fails e (GenerateTweetActions t)"
    and "processTweet e t results w = (res, w')"
  shows "Retweet (tw_id t) \<in> set (trace w')
     \<and> (\<not> fails e (Retweet (tw_id t)) \<longrightarrow>
          executedActions w' = [''retweet'']
          \<and> (\<not> fails e (EnsureRoomExists (tweetRoomId e t))
             \<and> \<not> fails e (EnsureUserExists (stringToUuid e (tw_userId t)) (tw_username t))
             \<and> \<not> fails e (EnsureParticipantInRoom (agentId e) (tweetRoomId e t))
             \<and> \<not> fails e (CreateMemory (processedMemory e t [''retweet''])) \<longrightarrow>
               res = Inr (results @
                      [\<lparr> r_tweetId = tw_id t,
                         r_parsedActions =
                           \<lparr>like = True, retweet = True, quote = False, reply = False\<rparr>,
                         r_executedActions = [''retweet''] \<rparr>])
               \<and> memories w' =
                   memories w @ [(tweetMemoryId e t, processedMemory e t [''retweet''])]))"
  using assms
  by (auto simp: processTweet_def executeActions_def likeAction_def retweetAction_def
      recordProcessed_def prog_defs Let_def split: if_splits)

theorem like_failure_does_not_stop_retweet_witness:
  "decide like_fails_env (sample_tweet ''1'') =
     Some \<lparr>like = True, retweet = True, quote = False, reply = False\<rparr>
   \<and> fails like_fails_env (LikeTweet (tw_id (sample_tweet ''1'')))
   \<and> \<not> fails like_fails_env (Retweet (tw_id (sample_tweet ''1'')))
   \<and> map_of (memories idle_world) (tweetMemoryId like_fails_env (sample_tweet ''1'')) = None
   \<and> Retweet ''1'' \<in> set (trace (snd (processTweet like_fails_env (sample_tweet ''1'') [] idle_world)))
   \<and> executedActions (snd (processTweet like_fails_env (sample_tweet ''1'') [] idle_world))
       = [''retweet'']
   \<and> map (\<lambda>(k, m). (k, mem_action m))
         (memories (snd (processTweet like_fails_env (sample_tweet ''1'') [] idle_world)))
       = [(''1-agent'', Some ''retweet'')]"
  using like_failure_does_not_stop_retweet [of like_fails_env "sample_tweet ''1''" idle_world "[]"
      "fst (processTweet like_fails_env (sample_tweet ''1'') [] idle_world)"
      "snd (processTweet like_fails_env (sample_tweet ''1'') [] idle_world)"]
  by (simp add: like_fails_env_def sample_defs tweetMemoryId_def tweetRoomId_def
      processedMemory_def)

subsection \<open>An empty quote\<close>

text \<open>
  C2. The claim: when the quote is enabled for a tweet and the generated quote is empty,
  only the quote is abandoned; the reply for the same tweet is still attempted, the tweet
  is still recorded and the remaining tweets are still processed.
  The code does otherwise. With two tweets fetched, quote and reply decided for the first
  and an empty quote generated, the \<open>return;\<close> of line 1207 ends \<open>processTweetActions\<close>
  itself with \<open>undefined\<close>: the trace stops at the error log, with no \<open>SendTweet\<close> for the
  reply, no \<open>CreateMemory\<close>, and no call at all for the second tweet, and the store is
  still empty.
\<close>

theorem empty_quote_ends_the_run:
  "fst (processTweetActions empty_quote_env idle_world :: (unit abrupt + _) \<times> _)
     = Inr ReturnedUndefined
   \<and> memories (snd (processTweetActions empty_quote_env idle_world :: (unit abrupt + _) \<times> _)) = []
   \<and> trace (snd (processTweetActions empty_quote_env idle_world :: (unit abrupt + _) \<times> _)) =
       [EnsureUserExists ''agent'' ''bot'', FetchTimelineForActions 15,
        GetMemoryById ''1-agent'', ComposeState ''1-agent'' [] [],
        GenerateTweetActions (sample_tweet ''1''),
        BuildConversationThread ''1'', ComposeState ''1-agent'' ''gm'' ''QUOTE'',
        GenerateTweetContent ''1'' ''QUOTE'',
        LogError ''Failed to generate valid quote tweet content'']"
  by (simp add: pipeline_defs prog_defs empty_quote_env_def sample_defs)

subsection \<open>What the pieces of the pipeline preserve\<close>

lemma grows_refl [simp]: "grows w w"
  by (simp add: grows_def)

lemma grows_trans: "grows a b \<Longrightarrow> grows b c \<Longrightarrow> grows a c"
  by (auto simp: grows_def)

lemma grows_map_of:
  "grows w w' \<Longrightarrow> map_of (memories w) k \<noteq> None \<Longrightarrow> map_of (memories w') k \<noteq> None"
  by (auto simp: grows_def map_add_def split: option.splits)


lemma behaves_pure: "behaves T S (pure x)"
  by (simp add: behaves_def pure_def)

lemma behaves_throw: "behaves True S (throw err)"
  by (simp add: behaves_def throw_def)

lemma behaves_return_stmt: "v \<in> S \<Longrightarrow> behaves T S (return_stmt v)"
  by (simp add: behaves_def return_stmt_def)

lemma behaves_gets: "behaves T S (gets f)"
  by (simp add: behaves_def gets_def)

lemma behaves_modify: "(\<And>w. grows w (f w)) \<Longrightarrow> behaves T S (modify f)"
  by (simp add: behaves_def modify_def)

lemma behaves_log_error: "behaves T S (log_error msg)"
  by (simp add: behaves_def log_error_def modify_def grows_def)

lemma behaves_push_executed: "behaves T S (push_executed label)"
  by (simp add: behaves_def push_executed_def modify_def grows_def)

lemma behaves_dateNow: "behaves T S (dateNow e)"
  by (simp add: behaves_def dateNow_def grows_def)

lemma behaves_mathRandom: "behaves T S (mathRandom e)"
  by (simp add: behaves_def mathRandom_def grows_def)

lemma grows_effect: "grows w (effect ev w)"
  by (cases ev) (simp_all add: grows_def)

lemma behaves_call: "behaves True S (call e ev)"
proof -
  have "grows w (effect ev (w\<lparr>trace := trace w @ [ev]\<rparr>))" for w
    by (rule grows_trans [OF _ grows_effect]) (simp add: grows_def)
  then show ?thesis
    by (simp add: behaves_def call_def Let_def grows_def)
qed

lemma behaves_bind:
  assumes "behaves T S m" and "\<And>x. behaves T S (f x)"
  shows "behaves T S (bind m f)"
  unfolding behaves_def
proof (intro allI)
  fix w
  obtain r w1 where m: "m w = (r, w1)" by (cases "m w")
  from assms(1) have g1: "grows w w1" and o1: "case r of Inl (Throw err) \<Rightarrow> T | Inl (Return v) \<Rightarrow> v \<in> S | Inr x \<Rightarrow> True"
    using m by (auto simp: behaves_def dest!: spec [of _ w])
  show "grows w (snd (bind m f w)) \<and>
        (case fst (bind m f w) of Inl (Throw err) \<Rightarrow> T | Inl (Return v) \<Rightarrow> v \<in> S | Inr x \<Rightarrow> True)"
  proof (cases r)
    case (Inl a)
    then show ?thesis using m g1 o1 by (simp add: bind_def)
  next
    case (Inr x)
    from assms(2) [of x] have "grows w1 (snd (f x w1))"
      and "case fst (f x w1) of Inl (Throw err) \<Rightarrow> T | Inl (Return v) \<Rightarrow> v \<in> S | Inr x \<Rightarrow> True"
      by (auto simp: behaves_def)
    then show ?thesis using m g1 Inr by (auto simp: bind_def intro: grows_trans)
  qed
qed

lemma behaves_then_do:
  "behaves T S m \<Longrightarrow> behaves T S n \<Longrightarrow> behaves T S (then_do m n)"
  by (simp add: then_do_def behaves_bind)

lemma behaves_try_catch:
  assumes "behaves True S m" and "\<And>err. behaves T S (h err)"
  shows "behaves T S (try_catch m h)"
  unfolding behaves_def
proof (intro allI)
  fix w
  obtain r w1 where m: "m w = (r, w1)" by (cases "m w")
  from assms(1) have g1: "grows w w1" and o1: "case r of Inl (Throw err) \<Rightarrow> True | Inl (Return v) \<Rightarrow> v \<in> S | Inr x \<Rightarrow> True"
    using m by (auto simp: behaves_def dest!: spec [of _ w])
  show "grows w (snd (try_catch m h w)) \<and>
        (case fst (try_catch m h w) of Inl (Throw err) \<Rightarrow> T | Inl (Return v) \<Rightarrow> v \<in> S | Inr x \<Rightarrow> True)"
  proof (cases "\<exists>err. r = Inl (Throw err)")
    case True
    then obtain err where r: "r = Inl (Throw err)" by blast
    from assms(2) [of err] have "grows w1 (snd (h err w1))"
      and "case fst (h err w1) of Inl (Throw err) \<Rightarrow> T | Inl (Return v) \<Rightarrow> v \<in> S | Inr x \<Rightarrow> True"
      by (auto simp: behaves_def)
    then show ?thesis using m g1 r by (auto simp: try_catch_def intro: grows_trans)
  next
    case False
    then show ?thesis using m g1 o1
      by (auto simp: try_catch_def split: sum.splits abrupt.splits)
  qed
qed

lemma behaves_call_fn:
  assumes "behaves T UNIV m"
  shows "behaves T S (call_fn m)"
  unfolding behaves_def
proof (intro allI)
  fix w
  from assms have "grows w (snd (m w))"
    and "case fst (m w) of Inl (Throw err) \<Rightarrow> T | Inl (Return v) \<Rightarrow> v \<in> UNIV | Inr x \<Rightarrow> True"
    by (auto simp: behaves_def)
  then show "grows w (snd (call_fn m w)) \<and>
        (case fst (call_fn m w) of Inl (Throw err) \<Rightarrow> T | Inl (Return v) \<Rightarrow> v \<in> S | Inr x \<Rightarrow> True)"
    by (cases "m w") (auto simp: call_fn_def split: sum.splits abrupt.splits)
qed

lemma behaves_if:
  "behaves T S a \<Longrightarrow> behaves T S b \<Longrightarrow> behaves T S (if c then a else b)"
  by simp

lemma behaves_case_option:
  "behaves T S a \<Longrightarrow> (\<And>x. behaves T S (b x)) \<Longrightarrow> behaves T S (case v of None \<Rightarrow> a | Some x \<Rightarrow> b x)"
  by (cases v) simp_all

lemmas behaves_intros = behaves_pure behaves_throw behaves_return_stmt behaves_gets
  behaves_log_error behaves_push_executed behaves_dateNow behaves_mathRandom behaves_call
  behaves_bind behaves_then_do behaves_try_catch behaves_call_fn behaves_if behaves_case_option

lemma behaves_describeImages: "behaves True S (describeImages e urls)"
  by (induction urls) (auto intro: behaves_intros)

lemma behaves_enrichState: "behaves True S (enrichState e t action)"
  unfolding enrichState_def fetchQuotedTweet_def
  by (intro behaves_intros behaves_describeImages)

lemma behaves_likeAction: "behaves T S (likeAction e t)"
  unfolding likeAction_def by (intro behaves_intros)

lemma behaves_retweetAction: "behaves T S (retweetAction e t)"
  unfolding retweetAction_def by (intro behaves_intros)

lemma behaves_quoteAction: "behaves T {ReturnedUndefined} (quoteAction e t)"
  unfolding quoteAction_def Let_def
  by (intro behaves_intros behaves_enrichState) simp

lemma behaves_handleTextOnlyReply: "behaves T S (handleTextOnlyReply e t)"
  unfolding handleTextOnlyReply_def Let_def
  by (intro behaves_intros behaves_enrichState) simp

lemma behaves_replyAction: "behaves T S (replyAction e t)"
  unfolding replyAction_def by (intro behaves_intros behaves_handleTextOnlyReply)


lemma behaves_recordProcessed: "behaves True S (recordProcessed e t d results)"
  unfolding recordProcessed_def by (intro behaves_intros)

lemma behaves_executeActions: "behaves True {ReturnedUndefined} (executeActions e t d results)"
  unfolding executeActions_def
  by (intro behaves_intros behaves_modify behaves_likeAction behaves_retweetAction
      behaves_quoteAction behaves_replyAction behaves_recordProcessed)
     (simp add: grows_def)

lemma behaves_processTweet: "behaves True {ReturnedUndefined} (processTweet e t results)"
  unfolding processTweet_def
  by (intro behaves_intros behaves_executeActions)

lemma behaves_processTimeline: "behaves T {ReturnedUndefined} (processTimeline e ts results)"
proof (induction ts arbitrary: results)
  case Nil
  show ?case by (simp add: behaves_pure)
next
  case (Cons t ts)
  show ?case
    unfolding processTimeline.simps
    by (intro behaves_intros behaves_processTweet Cons.IH)
qed

lemma recorded_then_do:
  assumes "behaves False S m" and "\<And>w1. recorded e t (n w1)"
  shows "recorded e t (then_do m n w)"
proof -
  obtain r w1 where m: "m w = (r, w1)" by (cases "m w")
  from assms(1) have "case r of Inl (Throw err) \<Rightarrow> False | Inl (Return v) \<Rightarrow> v \<in> S | Inr x \<Rightarrow> True"
    using m by (auto simp: behaves_def dest!: spec [of _ w])
  then show ?thesis
    using m assms(2) [of w1]
    by (auto simp: then_do_def bind_def recorded_def split: sum.splits abrupt.splits)
qed

lemma recorded_recordProcessed:
  assumes "\<not> fails e (EnsureRoomExists (tweetRoomId e t))"
    and "\<not> fails e (EnsureUserExists (stringToUuid e (tw_userId t)) (tw_username t))"
    and "\<not> fails e (EnsureParticipantInRoom (agentId e) (tweetRoomId e t))"
    and "\<And>executed. \<not> fails e (CreateMemory (processedMemory e t executed))"
  shows "recorded e t (recordProcessed e t d results w)"
  using assms
  by (simp add: recorded_def recordProcessed_def prog_defs Let_def)

lemma recorded_executeActions:
  assumes "\<not> fails e (EnsureRoomExists (tweetRoomId e t))"
    and "\<not> fails e (EnsureUserExists (stringToUuid e (tw_userId t)) (tw_username t))"
    and "\<not> fails e (EnsureParticipantInRoom (agentId e) (tweetRoomId e t))"
    and "\<And>executed. \<not> fails e (CreateMemory (processedMemory e t executed))"
  shows "recorded e t (executeActions e t d results w)"
  unfolding executeActions_def
  by (intro recorded_then_do [where S = "{ReturnedUndefined}"] recorded_recordProcessed assms
      behaves_modify behaves_if behaves_pure behaves_likeAction behaves_retweetAction
      behaves_quoteAction behaves_replyAction)
     (simp add: grows_def)

lemma recorded_processTweet:
  assumes "decide e t = Some d"
    and "\<not> fails e (GetMemoryById (tweetMemoryId e t))"
    and "\<not> fails e (ComposeState (tweetRoomId e t) [] [])"
    and "\<not> fails e (GenerateTweetActions t)"
    and "\<not> fails e (EnsureRoomExists (tweetRoomId e t))"
    and "\<not> fails e (EnsureUserExists (stringToUuid e (tw_userId t)) (tw_username t))"
    and "\<not> fails e (EnsureParticipantInRoom (agentId e) (tweetRoomId e t))"
    and "\<And>executed. \<not> fails e (CreateMemory (processedMemory e t executed))"
  shows "recorded e t (processTweet e t results w)"
proof (cases "map_of (memories w) (tweetMemoryId e t) = None")
  case True
  have "processTweet e t results w =
        executeActions e t d results
          (w\<lparr>trace := trace w @ [GetMemoryById (tweetMemoryId e t),
                ComposeState (tweetRoomId e t) [] [], GenerateTweetActions t]\<rparr>)"
    using assms(1-4) True
    by (simp add: processTweet_def then_do_def bind_def gets_def call_def Let_def)
  then show ?thesis
    using recorded_executeActions [OF assms(5-8)] by simp
next
  case False
  then show ?thesis
    using assms(2)
    by (simp add: processTweet_def then_do_def bind_def gets_def call_def Let_def pure_def
        recorded_def)
qed

lemma processTimeline_records:
  assumes "t \<in> set ts"
    and "decide e t = Some d"
    and "\<not> fails e (GetMemoryById (tweetMemoryId e t))"
    and "\<not> fails e (ComposeState (tweetRoomId e t) [] [])"
    and "\<not> fails e (GenerateTweetActions t)"
    and "\<not> fails e (EnsureRoomExists (tweetRoomId e t))"
    and "\<not> fails e (EnsureUserExists (stringToUuid e (tw_userId t)) (tw_username t))"
    and "\<not> fails e (EnsureParticipantInRoom (agentId e) (tweetRoomId e t))"
    and "\<And>executed. \<not> fails e (CreateMemory (processedMemory e t executed))"
    and "processTimeline e ts results w = (Inr rs, w')"
  shows "map_of (memories w') (tweetMemoryId e t) \<noteq> None"
  using assms(1,10)
proof (induction ts arbitrary: results w)
  case Nil
  then show ?case by simp
next
  case (Cons a ts)
  let ?step = "try_catch (processTweet e a results)
                 (\<lambda>err. then_do (log_error ''Error processing tweet'') (pure results))"
  obtain r1 w1 where step: "?step w = (r1, w1)" by (cases "?step w")
  from Cons.prems(2) step obtain results1 where r1: "r1 = Inr results1"
    and rest: "processTimeline e ts results1 w1 = (Inr rs, w')"
    by (cases r1) (auto simp: bind_def)
  show ?case
  proof (cases "t = a")
    case True
    have rec: "recorded e t (processTweet e t results w)"
      by (rule recorded_processTweet [OF assms(2-9)])
    obtain r0 w0 where p: "processTweet e t results w = (r0, w0)"
      by (cases "processTweet e t results w")
    from rec p have nothrow: "\<And>err. r0 \<noteq> Inl (Throw err)"
      by (auto simp: recorded_def)
    with p step True have "r0 = r1" "w0 = w1"
      by (auto simp: try_catch_def split: sum.splits abrupt.splits)
    with rec p r1 have "map_of (memories w1) (tweetMemoryId e t) \<noteq> None"
      by (simp add: recorded_def)
    moreover have "grows w1 w'"
      using behaves_processTimeline [of False e ts results1] rest
      by (auto simp: behaves_def dest!: spec [of _ w1])
    ultimately show ?thesis by (rule grows_map_of [rotated])
  next
    case False
    with Cons.prems(1) have "t \<in> set ts" by simp
    then show ?thesis using rest by (rule Cons.IH)
  qed
qed

subsection \<open>Recording the processed tweets\<close>

text \<open>
  C1. The claim: every fetched tweet that is not yet in the memory store gets a record by
  the end of its processing, also when the decision is \<open>null\<close>; in the end-to-end scenario
  (three tweets: one already processed, one with a \<open>null\<close> decision, one liked) the result
  list has two entries and the store gains two records.
  In the code a \<open>null\<close> decision is a \<open>continue\<close> (lines 1082-1087): the tweet gets no record
  and no result entry. In the scenario the result list has one entry, the store gains one
  record, and the second tweet, fetched and not in the store before, is not in it after.
\<close>

theorem scenario_null_decision_not_recorded:
  "fst (processTweetActions scenario_env scenario_world :: (unit abrupt + _) \<times> _)
     = Inr (ReturnedResults
              [\<lparr> r_tweetId = ''3'', r_parsedActions = like_only, r_executedActions = [''like''] \<rparr>])
   \<and> length (memories (snd (processTweetActions scenario_env scenario_world
                               :: (unit abrupt + _) \<times> _)))
       = length (memories scenario_world) + 1
   \<and> sample_tweet ''2'' \<in> set (timeline scenario_env)
   \<and> map_of (memories scenario_world) (tweetMemoryId scenario_env (sample_tweet ''2'')) = None
   \<and> map_of (memories (snd (processTweetActions scenario_env scenario_world
                               :: (unit abrupt + _) \<times> _)))
        (tweetMemoryId scenario_env (sample_tweet ''2'')) = None"
  by (simp add: pipeline_defs prog_defs scenario_env_def scenario_world_def sample_defs)

lemma null_decision_skips:
  assumes "decide e t = None"
  shows "memories (snd (processTweet e t results w)) = memories w
         \<and> (\<forall>rs. fst (processTweet e t results w) = Inr rs \<longrightarrow> rs = results)"
  using assms
  by (auto simp: processTweet_def prog_defs Let_def)

lemma run_records_decided_tweet:
  assumes "fst (processTweetActions e w) = Inr (ReturnedResults rs)"
    and "t \<in> set (timeline e)"
    and "decide e t = Some d"
    and "\<not> fails e (GetMemoryById (tweetMemoryId e t))"
    and "\<not> fails e (ComposeState (tweetRoomId e t) [] [])"
    and "\<not> fails e (GenerateTweetActions t)"
    and "\<not> fails e (EnsureRoomExists (tweetRoomId e t))"
    and "\<not> fails e (EnsureUserExists (stringToUuid e (tw_userId t)) (tw_username t))"
    and "\<not> fails e (EnsureParticipantInRoom (agentId e) (tweetRoomId e t))"
    and "\<And>executed. \<not> fails e (CreateMemory (processedMemory e t executed))"
  shows "map_of (memories (snd (processTweetActions e w))) (tweetMemoryId e t) \<noteq> None"
proof -
  let ?w3 = "w\<lparr>isProcessing := True, clock := Suc (clock w),
                lastProcessTime := date_now e (clock w),
                trace := trace w @ [EnsureUserExists (agentId e) (twitterUsername e),
                                    FetchTimelineForActions 15]\<rparr>"
  obtain r4 w4 where loop: "processTimeline e (timeline e) [] ?w3 = (r4, w4)"
    by (cases "processTimeline e (timeline e) [] ?w3")
  have only: "case r4 of Inl (Throw err) \<Rightarrow> False | Inl (Return v) \<Rightarrow> v \<in> {ReturnedUndefined} | Inr x \<Rightarrow> True"
    using behaves_processTimeline [of False e "timeline e" "[]"] loop
    by (auto simp: behaves_def dest!: spec [of _ ?w3])
  from assms(1) have idle: "\<not> isProcessing w"
    by (auto simp: processTweetActions_def call_fn_def return_stmt_def)
  from assms(1) idle have nofail: "\<not> fails e (EnsureUserExists (agentId e) (twitterUsername e))"
      "\<not> fails e (FetchTimelineForActions 15)"
    by (auto simp: processTweetActions_def processTweetActions_try_def prog_defs Let_def
        split: if_splits)
  from assms(1) idle nofail loop only have r4: "r4 = Inr rs"
    by (auto simp: processTweetActions_def processTweetActions_try_def prog_defs Let_def
        split: sum.splits abrupt.splits)
  from idle nofail loop r4
  have same: "memories (snd (processTweetActions e w)) = memories w4"
    by (simp add: processTweetActions_def processTweetActions_try_def prog_defs Let_def)
  from loop r4 have "processTimeline e (timeline e) [] ?w3 = (Inr rs, w4)"
    by simp
  then have "map_of (memories w4) (tweetMemoryId e t) \<noteq> None"
    by (rule processTimeline_records [OF assms(2-10)])
  then show ?thesis
    unfolding same .
qed

text \<open>
  C1, amended. In a run of \<open>processTweetActions\<close> that returns a results array, every
  fetched tweet for which the decision is not \<open>null\<close>, and for which the calls outside the
  isolated action handlers do not throw (the memory look-up, the state composition, the
  decision call, the room, user and participant bookkeeping, and \<open>createMemory\<close>), has a
  record in the memory store at the end. Nothing is assumed about the actions: they may
  all fail, and the record is created with zero executed actions (the witness).
  A tweet whose decision is \<open>null\<close> is skipped: processing it leaves the memory store as
  it was and adds no entry to the results.
\<close>

theorem decided_tweets_are_recorded:
  assumes "fst (processTweetActions e w) = Inr (ReturnedResults rs)"
    and "t \<in> set (timeline e)"
    and "decide e t = Some d"
    and "\<not> fails e (GetMemoryById (tweetMemoryId e t))"
    and "\<not> fails e (ComposeState (tweetRoomId e t) [] [])"
    and "\<not> fails e (GenerateTweetActions t)"
    and "\<not> fails e (EnsureRoomExists (tweetRoomId e t))"
    and "\<not> fails e (EnsureUserExists (stringToUuid e (tw_userId t)) (tw_username t))"
    and "\<not> fails e (EnsureParticipantInRoom (agentId e) (tweetRoomId e t))"
    and "\<And>executed. \<not> fails e (CreateMemory (processedMemory e t executed))"
  shows "map_of (memories (snd (processTweetActions e w))) (tweetMemoryId e t) \<noteq> None
         \<and> (\<forall>t' results w0.
               decide e t' = None \<longrightarrow>
                 memories (snd (processTweet e t' results w0)) = memories w0
                 \<and> (\<forall>rs'. fst (processTweet e t' results w0) = Inr rs' \<longrightarrow> rs' = results))"
  using run_records_decided_tweet [OF assms] null_decision_skips
  by blast

theorem decided_tweets_are_recorded_witness:
  "fst (processTweetActions sole_like_fails_env idle_world :: (unit abrupt + _) \<times> _)
     = Inr (ReturnedResults
              [\<lparr> r_tweetId = ''1'', r_parsedActions = like_only, r_executedActions = [] \<rparr>])
   \<and> sample_tweet ''1'' \<in> set (timeline sole_like_fails_env)
   \<and> decide sole_like_fails_env (sample_tweet ''1'') = Some like_only
   \<and> map_of (memories idle_world) (tweetMemoryId sole_like_fails_env (sample_tweet ''1'')) = None
   \<and> map_of (memories (snd (processTweetActions sole_like_fails_env idle_world
                               :: (unit abrupt + _) \<times> _)))
        (tweetMemoryId sole_like_fails_env (sample_tweet ''1'')) \<noteq> None"
  using decided_tweets_are_recorded [of sole_like_fails_env idle_world
      "[\<lparr> r_tweetId = ''1'', r_parsedActions = like_only, r_executedActions = [] \<rparr>]"
      "sample_tweet ''1''" like_only, where ?'a = unit]
  by (simp add: pipeline_defs prog_defs sole_like_fails_env_def sample_defs)

section \<open>Results on generateNewTweet\<close>

lemmas post_defs = generateNewTweet_def generateNewTweet_try_def publishTweet_def
  generateWithImage_def sendTweet_def cleanContent_def clean_raw_def or_default_def
  imagePromptOf_def usableImage_def toLowerCase_def

lemmas string_defs = truncateToCompleteSentence_def slice_def slice_index_def lastIndexOf_def
  trim_def is_ws_def remove_json_wrapper_def wrapper_prefix_def wrapper_tail_def
  removeQuotes_def is_quote_def is_line_terminator_def dquote_def squote_def backslash_def
  newline_def

subsection \<open>A send response without the success indicator\<close>

text \<open>
  C3. The claim: when the send response lacks \<open>data.create_tweet.tweet_results.result\<close>,
  the cycle ends without recording: no memory record, no cached tweet and no last-post
  timestamp.
  The code does write the timestamp. \<open>sendTweet\<close> logs the bad response and returns before
  its own cache write, \<open>cacheTweet\<close> and \<open>createMemory\<close>; but it returns normally, and
  \<open>generateNewTweet\<close> goes on to lines 884-891 and sets \<open>twitter/<username>/lastPost\<close> to the
  current time, the key that \<open>generateNewTweetLoop\<close> reads to schedule the next post. In the
  run below every send response lacks the result; the trace ends with that \<open>CacheSet\<close>, and
  the cache holds a last-post timestamp that it did not hold before.
\<close>

theorem bad_response_still_marks_last_post:
  "sendTweetBody quiet_env ''hello'' None None = None
   \<and> fst (generateNewTweet quiet_env idle_world :: (unit abrupt + _) \<times> _) = Inr ()
   \<and> trace (snd (generateNewTweet quiet_env idle_world :: (unit abrupt + _) \<times> _)) =
       [EnsureUserExists ''agent'' ''bot'',
        ComposeState ''twitter_generate_room-bot'' ''tea'' ''TWEET'',
        GenerateText,
        SendTweet ''hello'' None None,
        LogError ''Error sending tweet; Bad response:'',
        CacheSet ''twitter/bot/lastPost'' (LastPost None 1700000000000)]
   \<and> cache idle_world ''twitter/bot/lastPost'' = None
   \<and> cache (snd (generateNewTweet quiet_env idle_world :: (unit abrupt + _) \<times> _))
         ''twitter/bot/lastPost'' = Some (LastPost None 1700000000000)
   \<and> memories (snd (generateNewTweet quiet_env idle_world :: (unit abrupt + _) \<times> _)) = []"
  by (simp add: post_defs prog_defs string_defs sample_defs Let_def)

subsection \<open>Media failures\<close>




lemma keeps_event_call_fn:
  "ev \<in> set (trace (snd (m w))) \<Longrightarrow> ev \<in> set (trace (snd (call_fn m w)))"
  by (cases "m w") (auto simp: call_fn_def split: sum.splits abrupt.splits)










section \<open>Results on generateNewTweetLoop\<close>



section \<open>Results on the cleaning of the generated post\<close>




end
